theory Spec2Isabelle
  imports Main "HOL-Library.Word"
begin

section \<open>The Spotify OAuth token lifecycle (auth/spotifyAuth.ts)\<close>

text \<open>
  A shallow embedding of the class \<open>SpotifyAuth\<close>. The object is a record that is
  passed in and returned; everything outside the object (the token file, the clock, the
  random source, the token endpoint, the callback listener, the console) is a second
  record, the world, threaded through every method in the same way. A method that can
  throw returns the world, the object \<^emph>\<open>as the throw leaves it\<close> and a sum whose left
  injection is the thrown error.
\<close>

subsection \<open>Data\<close>

text \<open>
  \<open>interface TokenData\<close>. Numbers are integers (milliseconds). The source tests
  \<open>refresh_token\<close> for absence and stores whatever the token endpoint sent, so the
  field is optional here: \<open>None\<close> is JavaScript's \<open>undefined\<close>.
\<close>

record TokenData =
  access_token :: string
  refresh_token :: "string option"
  expires_at :: int
  token_type :: string
  scope :: string

text \<open>
  What \<open>this.tokenData\<close> can hold besides \<open>null\<close>. The field is declared
  \<open>TokenData | null\<close>, but \<open>loadTokens\<close> assigns whatever \<open>JSON.parse\<close> returns,
  unchecked. So besides a token record (\<open>Record\<close>) the value can be any other JSON
  value: an object of another shape, an array, a boolean, a number or a string. Of an
  object of another shape the model keeps the three members the class ever reads, each
  absent (\<open>None\<close>, a read gives \<open>undefined\<close>) or of its declared type; the class
  never reads \<open>token_type\<close> or \<open>scope\<close>, nor the elements of an array. Members of
  another type than declared are outside the model.
\<close>

record Members =
  member_access_token :: "string option"
  member_refresh_token :: "string option"
  member_expires_at :: "int option"

datatype held =
    Record TokenData
  | JObject Members
  | JArray
  | JBoolean bool
  | JNumber int
  | JString string

text \<open>The instance fields of \<open>SpotifyAuth\<close>; \<open>tokenData = None\<close> is \<open>null\<close>.\<close>

record SpotifyAuth =
  clientId :: string
  clientSecret :: string
  tokenPath :: string
  tokenData :: "held option"

text \<open>
  \<open>response.data\<close> of a 2xx answer of the token endpoint. \<open>rsp_refresh_token = None\<close>
  is a response without that member.
\<close>

record TokenResponse =
  rsp_access_token :: string
  rsp_refresh_token :: "string option"
  rsp_expires_in :: int
  rsp_token_type :: string
  rsp_scope :: string

text \<open>
  A POST to the token endpoint: the URL, the form fields handed to \<open>URLSearchParams\<close>,
  and the pair \<open>clientId:clientSecret\<close> that the Basic authorization header encodes.
\<close>

record token_request =
  url :: string
  form :: "(string \<times> string) list"
  basic :: "string \<times> string"

text \<open>What \<open>axios.post\<close> does: it returns on 2xx and throws otherwise.\<close>

datatype reply = Reply TokenResponse | HttpError nat | NetworkError

text \<open>
  The text of a file, by what \<open>JSON.parse\<close> makes of it: a \<open>SyntaxError\<close>, or the
  value it returns (\<open>null\<close>, a token record, or another JSON value).
\<close>

datatype content = Malformed | Json "held option"

text \<open>Exceptions of the library calls, all of which the source catches.\<close>

datatype fault = ReadFault | WriteFault | UnlinkFault | SyntaxError

text \<open>
  The errors the class throws, named as in the specification's taxonomy; \<open>message\<close> is
  the text of the \<open>Error\<close> the source constructs. \<open>TypeError\<close> is the runtime's
  error for a member access on \<open>null\<close>.
\<close>

datatype error =
    NotAuthenticated
  | NoRefreshToken
  | RefreshFailed
  | AuthorizationDenied string
  | CsrfMismatch
  | NoAuthorizationCode
  | CallbackTimeout
  | ExchangeFailed
  | TypeError

fun message :: "error \<Rightarrow> string" where
  "message NotAuthenticated = ''Not authenticated. Run the auth flow first.''"
| "message NoRefreshToken = ''No refresh token available. Run the auth flow first.''"
| "message RefreshFailed = ''Failed to refresh access token. Please re-authenticate.''"
| "message (AuthorizationDenied e) = ''Authentication failed: '' @ e"
| "message CsrfMismatch = ''State mismatch''"
| "message NoAuthorizationCode = ''No authorization code''"
| "message CallbackTimeout = ''Authentication timed out''"
| "message ExchangeFailed = ''Failed to exchange authorization code for tokens''"
| "message TypeError = ''Cannot read properties of null''"

text \<open>The request that reaches the callback listener, after \<open>new URL(req.url, ...)\<close>.\<close>

record request =
  pathname :: string
  searchParams :: "(string \<times> string) list"

datatype page = FailedPage string | StateMismatchPage | NoCodePage | SuccessPage

text \<open>
  What the callback wait does to the outside, in program order: the calls on the
  server, on the response, on the timer, and on the promise's \<open>resolve\<close>/\<open>reject\<close>.
\<close>

datatype effect =
    Listen nat string
  | SetTimeout nat
  | WriteHead nat
  | End page
  | ServerClose
  | Resolve string
  | Reject error

text \<open>
  A line written by \<open>console.error\<close>: its fixed text (without line breaks and without
  the error object the source appends), or the authorization URL as its endpoint and query
  parameters.
\<close>

datatype log_line = Line string | UrlLine string "(string \<times> string) list"

text \<open>
  The world:
  \<^item> \<open>fs\<close>: the files by path (\<open>None\<close>: no such file); \<open>read_fails\<close>,
    \<open>write_fails\<close>, \<open>unlink_fails\<close>: the paths at which \<open>readFileSync\<close>,
    \<open>writeFileSync\<close>, \<open>unlinkSync\<close> throw;
  \<^item> \<open>clock\<close>, \<open>ticks\<close>: the successive readings of \<open>Date.now()\<close> and how many
    were taken;
  \<^item> \<open>entropy\<close>, \<open>drawn\<close>: the bytes of the random source and how many were taken;
  \<^item> \<open>net\<close>, \<open>sent\<close>: the token endpoint's answer to the \<open>k\<close>-th request, and
    the requests sent so far;
  \<^item> \<open>listener\<close>: what the callback listener has done so far;
  \<^item> \<open>console\<close>: the lines logged so far;
  \<^item> \<open>environ\<close>: \<open>process.env\<close>.
\<close>

record world =
  fs :: "string \<Rightarrow> content option"
  read_fails :: "string \<Rightarrow> bool"
  write_fails :: "string \<Rightarrow> bool"
  unlink_fails :: "string \<Rightarrow> bool"
  clock :: "nat \<Rightarrow> int"
  ticks :: nat
  entropy :: "nat \<Rightarrow> 8 word"
  drawn :: nat
  net :: "nat \<Rightarrow> token_request \<Rightarrow> reply"
  sent :: "token_request list"
  listener :: "effect list"
  console :: "log_line list"
  environ :: "string \<Rightarrow> string option"

subsection \<open>Constants of the module\<close>

definition SPOTIFY_AUTH_URL :: string where
  "SPOTIFY_AUTH_URL = ''https://accounts.spotify.com/authorize''"

definition SPOTIFY_TOKEN_URL :: string where
  "SPOTIFY_TOKEN_URL = ''https://accounts.spotify.com/api/token''"

definition REDIRECT_URI :: string where
  "REDIRECT_URI = ''http://127.0.0.1:8888/callback''"

definition SCOPES :: string where
  "SCOPES = ''user-library-read user-read-private user-read-email''"

subsection \<open>The runtime and the library\<close>

text \<open>JavaScript truthiness of a value that is a string or absent.\<close>

fun truthy :: "string option \<Rightarrow> bool" where
  "truthy None = False"
| "truthy (Some s) = (s \<noteq> [])"

text \<open>
  Truthiness of a held value, and the reads of its members \<open>access_token\<close>,
  \<open>refresh_token\<close> and \<open>expires_at\<close>; \<open>None\<close> is \<open>undefined\<close>, which is
  what a boolean, a number, a string and an array give for these names.
\<close>

fun truthy_value :: "held \<Rightarrow> bool" where
  "truthy_value (Record td) = True"
| "truthy_value (JObject m) = True"
| "truthy_value JArray = True"
| "truthy_value (JBoolean b) = b"
| "truthy_value (JNumber n) = (n \<noteq> 0)"
| "truthy_value (JString x) = (x \<noteq> [])"

fun access_token_of :: "held \<Rightarrow> string option" where
  "access_token_of (Record td) = Some (access_token td)"
| "access_token_of (JObject m) = member_access_token m"
| "access_token_of v = None"

fun refresh_token_of :: "held \<Rightarrow> string option" where
  "refresh_token_of (Record td) = refresh_token td"
| "refresh_token_of (JObject m) = member_refresh_token m"
| "refresh_token_of v = None"

fun expires_at_of :: "held \<Rightarrow> int option" where
  "expires_at_of (Record td) = Some (expires_at td)"
| "expires_at_of (JObject m) = member_expires_at m"
| "expires_at_of v = None"

text \<open>
  \<open>x > n\<close> and \<open>x <= n\<close> for a number \<open>n\<close> and a member \<open>x\<close> that is a
  number or \<open>undefined\<close>: \<open>undefined\<close> converts to \<open>NaN\<close>, and every comparison
  with \<open>NaN\<close> is false.
\<close>

fun greater_than :: "int option \<Rightarrow> int \<Rightarrow> bool" where
  "greater_than None n = False"
| "greater_than (Some x) n = (x > n)"

fun less_or_equal :: "int option \<Rightarrow> int \<Rightarrow> bool" where
  "less_or_equal None n = False"
| "less_or_equal (Some x) n = (x \<le> n)"

text \<open>\<open>a || b\<close> on such values, and with a string on the right.\<close>

definition or_else :: "string option \<Rightarrow> string option \<Rightarrow> string option" where
  "or_else a b = (if truthy a then a else b)"

definition or_string :: "string option \<Rightarrow> string \<Rightarrow> string" where
  "or_string a b = (case a of None \<Rightarrow> b | Some x \<Rightarrow> if x \<noteq> [] then x else b)"

text \<open>\<open>console.error\<close>.\<close>

definition console_error :: "log_line \<Rightarrow> world \<Rightarrow> world" where
  "console_error l w = w\<lparr>console := console w @ [l]\<rparr>"

text \<open>\<open>Date.now()\<close>: the next reading of the clock.\<close>

definition Date_now :: "world \<Rightarrow> world \<times> int" where
  "Date_now w = (w\<lparr>ticks := Suc (ticks w)\<rparr>, clock w (ticks w))"

text \<open>\<open>fs.existsSync\<close>, \<open>fs.readFileSync\<close>, \<open>JSON.parse\<close>.\<close>

definition existsSync :: "world \<Rightarrow> string \<Rightarrow> bool" where
  "existsSync w p = (fs w p \<noteq> None)"

definition readFileSync :: "world \<Rightarrow> string \<Rightarrow> fault + content" where
  "readFileSync w p =
     (case fs w p of
        None \<Rightarrow> Inl ReadFault
      | Some c \<Rightarrow> if read_fails w p then Inl ReadFault else Inr c)"

definition JSON_parse :: "content \<Rightarrow> fault + held option" where
  "JSON_parse c = (case c of Malformed \<Rightarrow> Inl SyntaxError | Json v \<Rightarrow> Inr v)"

text \<open>
  \<open>fs.writeFileSync(path, JSON.stringify(v, null, 2))\<close>: the file then holds the text
  that parses back to \<open>v\<close>. A write that throws leaves the file as it was.
\<close>

definition writeFileSync :: "world \<Rightarrow> string \<Rightarrow> held option \<Rightarrow> fault + world" where
  "writeFileSync w p v =
     (if write_fails w p then Inl WriteFault
      else Inr (w\<lparr>fs := (fs w)(p := Some (Json v))\<rparr>))"

definition unlinkSync :: "world \<Rightarrow> string \<Rightarrow> fault + world" where
  "unlinkSync w p =
     (if fs w p = None \<or> unlink_fails w p then Inl UnlinkFault
      else Inr (w\<lparr>fs := (fs w)(p := None)\<rparr>))"

text \<open>
  \<open>axios.post\<close> to the token endpoint: the request is recorded, and the endpoint's
  answer may depend on how many requests came before.
\<close>

definition axios_post :: "world \<Rightarrow> token_request \<Rightarrow> world \<times> reply" where
  "axios_post w rq = (w\<lparr>sent := sent w @ [rq]\<rparr>, net w (length (sent w)) rq)"

subsection \<open>Token store\<close>

text \<open>
  \<open>loadTokens\<close>: the assignment happens only when the file exists, and it assigns the
  parsed value as it is; every exception of the \<open>try\<close> block ends in the \<open>catch\<close>,
  which logs and sets \<open>null\<close>.
\<close>

definition loadTokens :: "world \<Rightarrow> SpotifyAuth \<Rightarrow> world \<times> SpotifyAuth \<times> (error + unit)" where
  "loadTokens w s =
     (if existsSync w (tokenPath s) then
        (case readFileSync w (tokenPath s) of
           Inl e \<Rightarrow> (console_error (Line ''Failed to load tokens:'') w, s\<lparr>tokenData := None\<rparr>, Inr ())
         | Inr data \<Rightarrow>
             (case JSON_parse data of
                Inl e \<Rightarrow> (console_error (Line ''Failed to load tokens:'') w, s\<lparr>tokenData := None\<rparr>, Inr ())
              | Inr v \<Rightarrow> (w, s\<lparr>tokenData := v\<rparr>, Inr ())))
      else (w, s, Inr ()))"

text \<open>\<open>saveTokens\<close>: a failed write is logged and swallowed.\<close>

definition saveTokens :: "world \<Rightarrow> SpotifyAuth \<Rightarrow> world \<times> SpotifyAuth \<times> (error + unit)" where
  "saveTokens w s =
     (case writeFileSync w (tokenPath s) (tokenData s) of
        Inl e \<Rightarrow> (console_error (Line ''Failed to save tokens:'') w, s, Inr ())
      | Inr w' \<Rightarrow> (w', s, Inr ()))"

text \<open>
  The constructor. \<open>path.join\<close> is taken without its normalisation; nothing below
  depends on the shape of the default path.
\<close>

definition path_join :: "string \<Rightarrow> string \<Rightarrow> string" where
  "path_join a b = a @ ''/'' @ b"

definition homeDir :: "world \<Rightarrow> string" where
  "homeDir w = or_string (environ w ''HOME'') (or_string (environ w ''USERPROFILE'') ''.'')"

definition resolveTokenPath :: "world \<Rightarrow> string option \<Rightarrow> string" where
  "resolveTokenPath w path = or_string path (path_join (homeDir w) ''.spotify-mcp-tokens.json'')"

definition SpotifyAuth_new ::
  "world \<Rightarrow> string \<Rightarrow> string \<Rightarrow> string option \<Rightarrow> world \<times> SpotifyAuth \<times> (error + unit)" where
  "SpotifyAuth_new w cid secret path =
     loadTokens w
       \<lparr>clientId = cid, clientSecret = secret,
        tokenPath = resolveTokenPath w path,
        tokenData = None\<rparr>"

text \<open>
  What a load of the store at a path yields: the record \<open>loadTokens\<close> leaves in an
  object that held none.
\<close>

definition TokenStore_load :: "world \<Rightarrow> string \<Rightarrow> held option" where
  "TokenStore_load w p =
     tokenData (fst (snd (loadTokens w
       \<lparr>clientId = [], clientSecret = [], tokenPath = p, tokenData = None\<rparr>)))"

subsection \<open>Validity\<close>

text \<open>
  \<open>hasValidTokens\<close>: \<open>!this.tokenData\<close> holds for \<open>null\<close> and for a falsy
  value; the clock is read only past that guard.
\<close>

definition hasValidTokens :: "world \<Rightarrow> SpotifyAuth \<Rightarrow> world \<times> bool" where
  "hasValidTokens w s =
     (case tokenData s of
        None \<Rightarrow> (w, False)
      | Some v \<Rightarrow>
          if \<not> truthy_value v then (w, False)
          else (case Date_now w of
                  (w', now) \<Rightarrow> (w', greater_than (expires_at_of v) (now + 60000))))"

subsection \<open>Access token and refresh\<close>

definition refresh_request :: "SpotifyAuth \<Rightarrow> string \<Rightarrow> token_request" where
  "refresh_request s rt =
     \<lparr>url = SPOTIFY_TOKEN_URL,
      form = [(''grant_type'', ''refresh_token''), (''refresh_token'', rt)],
      basic = (clientId s, clientSecret s)\<rparr>"

text \<open>
  \<open>refreshAccessToken\<close>. The guard \<open>!this.tokenData?.refresh_token\<close> holds for
  \<open>null\<close>, for a value without the member and for an empty string. Whatever is thrown
  inside the \<open>try\<close> block (by \<open>axios.post\<close>) is logged and replaced by the one error of
  the \<open>catch\<close>; the record is assigned only after the answer has arrived.
\<close>

definition refreshAccessToken :: "world \<Rightarrow> SpotifyAuth \<Rightarrow> world \<times> SpotifyAuth \<times> (error + unit)" where
  "refreshAccessToken w s =
     (case tokenData s of
        None \<Rightarrow> (w, s, Inl NoRefreshToken)
      | Some v \<Rightarrow>
          (case refresh_token_of v of
             None \<Rightarrow> (w, s, Inl NoRefreshToken)
           | Some rt \<Rightarrow>
               if rt = [] then (w, s, Inl NoRefreshToken)
               else
                 (case axios_post w (refresh_request s rt) of
                    (w1, Reply data) \<Rightarrow>
                      (case Date_now w1 of
                         (w2, now) \<Rightarrow>
                           (case saveTokens w2
                                   (s\<lparr>tokenData := Some (Record
                                       \<lparr>access_token = rsp_access_token data,
                                        refresh_token = or_else (rsp_refresh_token data) (refresh_token_of v),
                                        expires_at = now + rsp_expires_in data * 1000,
                                        token_type = rsp_token_type data,
                                        scope = rsp_scope data\<rparr>)\<rparr>) of
                              (w3, s3, Inr u) \<Rightarrow>
                                (console_error (Line ''Token refreshed successfully'') w3, s3, Inr ())
                            | (w3, s3, Inl e) \<Rightarrow>
                                (console_error (Line ''Failed to refresh token:'') w3, s3, Inl RefreshFailed)))
                  | (w1, HttpError n) \<Rightarrow>
                      (console_error (Line ''Failed to refresh token:'') w1, s, Inl RefreshFailed)
                  | (w1, NetworkError) \<Rightarrow>
                      (console_error (Line ''Failed to refresh token:'') w1, s, Inl RefreshFailed))))"

text \<open>
  \<open>getAccessToken\<close>. After the refresh the token is read from the value the object
  holds then. What is returned is the member \<open>access_token\<close> of the held value:
  \<open>Some\<close> of the string, or \<open>None\<close> for \<open>undefined\<close> where the value has no
  such member.
\<close>

definition getAccessToken ::
  "world \<Rightarrow> SpotifyAuth \<Rightarrow> world \<times> SpotifyAuth \<times> (error + string option)" where
  "getAccessToken w s =
     (case tokenData s of
        None \<Rightarrow> (w, s, Inl NotAuthenticated)
      | Some v \<Rightarrow>
          if \<not> truthy_value v then (w, s, Inl NotAuthenticated)
          else
            (case Date_now w of
               (w1, now) \<Rightarrow>
                 if less_or_equal (expires_at_of v) (now + 60000) then
                   (case refreshAccessToken w1 s of
                      (w2, s2, Inl e) \<Rightarrow> (w2, s2, Inl e)
                    | (w2, s2, Inr u) \<Rightarrow>
                        (case tokenData s2 of
                           None \<Rightarrow> (w2, s2, Inl TypeError)
                         | Some v2 \<Rightarrow> (w2, s2, Inr (access_token_of v2))))
                 else (w1, s, Inr (access_token_of v))))"

subsection \<open>Logout\<close>

text \<open>\<open>clearTokens\<close>: a failed removal is logged and swallowed.\<close>

definition clearTokens :: "world \<Rightarrow> SpotifyAuth \<Rightarrow> world \<times> SpotifyAuth \<times> (error + unit)" where
  "clearTokens w s =
     (if existsSync w (tokenPath s) then
        (case unlinkSync w (tokenPath s) of
           Inl e \<Rightarrow> (console_error (Line ''Failed to clear tokens:'') w, s\<lparr>tokenData := None\<rparr>, Inr ())
         | Inr w' \<Rightarrow> (w', s\<lparr>tokenData := None\<rparr>, Inr ()))
      else (w, s\<lparr>tokenData := None\<rparr>, Inr ()))"

subsection \<open>Authorization flow\<close>

text \<open>\<open>crypto.randomBytes(n)\<close> and \<open>Buffer.toString("hex")\<close>.\<close>

definition randomBytes :: "world \<Rightarrow> nat \<Rightarrow> world \<times> 8 word list" where
  "randomBytes w n = (w\<lparr>drawn := drawn w + n\<rparr>, map (entropy w) [drawn w ..< drawn w + n])"

definition hex_digit :: "nat \<Rightarrow> char" where
  "hex_digit n = ''0123456789abcdef'' ! (n mod 16)"

definition toString_hex :: "8 word list \<Rightarrow> string" where
  "toString_hex bs = concat (map (\<lambda>b. [hex_digit (unat b div 16), hex_digit (unat b mod 16)]) bs)"

definition generateState :: "world \<Rightarrow> world \<times> string" where
  "generateState w = (case randomBytes w 16 of (w', bs) \<Rightarrow> (w', toString_hex bs))"

text \<open>
  The request listener of \<open>waitForCallback\<close>, as the list of what one run of it does.
  \<open>searchParams.get\<close> gives the first value of a name or \<open>null\<close>; a request for
  another path gets no answer at all. The tests come in the source's order: error,
  state, code.
\<close>

definition handler :: "string \<Rightarrow> request \<Rightarrow> effect list" where
  "handler expectedState req =
     (if pathname req = ''/callback'' then
        (case map_of (searchParams req) ''error'' of
           Some (e # es) \<Rightarrow>
             [WriteHead 400, End (FailedPage (e # es)), ServerClose,
              Reject (AuthorizationDenied (e # es))]
         | _ \<Rightarrow>
             if map_of (searchParams req) ''state'' \<noteq> Some expectedState then
               [WriteHead 400, End StateMismatchPage, ServerClose, Reject CsrfMismatch]
             else
               (case map_of (searchParams req) ''code'' of
                  Some (c # cs) \<Rightarrow> [WriteHead 200, End SuccessPage, ServerClose, Resolve (c # cs)]
                | _ \<Rightarrow> [WriteHead 400, End NoCodePage, ServerClose, Reject NoAuthorizationCode]))
      else [])"

text \<open>
  The event loop runs the handler once per request, one run after the other, while the
  server accepts requests: a run that calls \<open>server.close()\<close> is the last one.
  \<open>server.close()\<close> is taken to release the port.
\<close>

fun serve :: "string \<Rightarrow> request list \<Rightarrow> effect list" where
  "serve expectedState [] = []"
| "serve expectedState (r # rs) =
     (if ServerClose \<in> set (handler expectedState r) then handler expectedState r
      else handler expectedState r @ serve expectedState rs)"

text \<open>
  The promise is settled by the first call of \<open>resolve\<close> or \<open>reject\<close>; later calls
  do nothing. \<open>None\<close>: never settled.
\<close>

fun settled :: "effect list \<Rightarrow> (error + string) option" where
  "settled [] = None"
| "settled (Resolve c # es) = Some (Inr c)"
| "settled (Reject e # es) = Some (Inl e)"
| "settled (x # es) = settled es"

text \<open>
  \<open>waitForCallback\<close>, given the requests that arrive within the five minutes: the
  server is created and listens, the timer is set, the requests are served, and the timer
  (which nothing cancels) fires last.
\<close>

definition callback_trace :: "string \<Rightarrow> request list \<Rightarrow> effect list" where
  "callback_trace expectedState reqs =
     [Listen 8888 ''127.0.0.1'', SetTimeout (5 * 60 * 1000)]
     @ serve expectedState reqs
     @ [ServerClose, Reject CallbackTimeout]"

definition waitForCallback ::
  "world \<Rightarrow> string \<Rightarrow> request list \<Rightarrow> world \<times> (error + string) option" where
  "waitForCallback w expectedState reqs =
     (console_error (Line ''Callback server listening on http://127.0.0.1:8888/callback'')
        (w\<lparr>listener := listener w @ callback_trace expectedState reqs\<rparr>),
      settled (callback_trace expectedState reqs))"

definition exchange_request :: "SpotifyAuth \<Rightarrow> string \<Rightarrow> token_request" where
  "exchange_request s code =
     \<lparr>url = SPOTIFY_TOKEN_URL,
      form = [(''grant_type'', ''authorization_code''), (''code'', code),
              (''redirect_uri'', REDIRECT_URI)],
      basic = (clientId s, clientSecret s)\<rparr>"

text \<open>\<open>exchangeCodeForTokens\<close>.\<close>

definition exchangeCodeForTokens ::
  "world \<Rightarrow> SpotifyAuth \<Rightarrow> string \<Rightarrow> world \<times> SpotifyAuth \<times> (error + unit)" where
  "exchangeCodeForTokens w s code =
     (case axios_post w (exchange_request s code) of
        (w1, Reply data) \<Rightarrow>
          (case Date_now w1 of
             (w2, now) \<Rightarrow>
               (case saveTokens w2
                       (s\<lparr>tokenData := Some (Record
                           \<lparr>access_token = rsp_access_token data,
                            refresh_token = rsp_refresh_token data,
                            expires_at = now + rsp_expires_in data * 1000,
                            token_type = rsp_token_type data,
                            scope = rsp_scope data\<rparr>)\<rparr>) of
                  (w3, s3, Inr u) \<Rightarrow> (w3, s3, Inr ())
                | (w3, s3, Inl e) \<Rightarrow> (w3, s3, Inl ExchangeFailed)))
      | (w1, HttpError n) \<Rightarrow>
          (console_error (Line ''Token exchange error:'') w1, s, Inl ExchangeFailed)
      | (w1, NetworkError) \<Rightarrow>
          (console_error (Line ''Token exchange error:'') w1, s, Inl ExchangeFailed))"

text \<open>
  \<open>authenticate\<close>, given the requests that reach the listener. \<open>None\<close>: the
  \<open>await\<close> on the callback never resumes.
\<close>

definition authUrl :: "SpotifyAuth \<Rightarrow> string \<Rightarrow> log_line" where
  "authUrl s state =
     UrlLine SPOTIFY_AUTH_URL
       [(''client_id'', clientId s), (''response_type'', ''code''),
        (''redirect_uri'', REDIRECT_URI), (''state'', state), (''scope'', SCOPES)]"

definition announce :: "SpotifyAuth \<Rightarrow> string \<Rightarrow> world \<Rightarrow> world" where
  "announce s state w =
     console_error (Line ''Waiting for authentication...'')
       (console_error (authUrl s state)
          (console_error (Line ''Please open this URL in your browser to authenticate:'')
             (console_error (Line ''=== Spotify Authentication ==='') w)))"

definition authenticate ::
  "world \<Rightarrow> SpotifyAuth \<Rightarrow> request list \<Rightarrow> (world \<times> SpotifyAuth \<times> (error + unit)) option" where
  "authenticate w s reqs =
     (case generateState w of
        (w1, state) \<Rightarrow>
          (case waitForCallback (announce s state w1) state reqs of
             (w2, None) \<Rightarrow> None
           | (w2, Some (Inl e)) \<Rightarrow> Some (w2, s, Inl e)
           | (w2, Some (Inr code)) \<Rightarrow>
               (case exchangeCodeForTokens w2 s code of
                  (w3, s3, Inl e) \<Rightarrow> Some (w3, s3, Inl e)
                | (w3, s3, Inr u) \<Rightarrow>
                    Some (console_error (Line ''Authentication successful! Tokens saved.'') w3,
                          s3, Inr ()))))"

subsection \<open>The port\<close>

text \<open>Whether the listener's port is bound after a run of effects.\<close>

fun bound_after :: "bool \<Rightarrow> effect list \<Rightarrow> bool" where
  "bound_after b [] = b"
| "bound_after b (Listen port host # es) = bound_after True es"
| "bound_after b (ServerClose # es) = bound_after False es"
| "bound_after b (x # es) = bound_after b es"

subsection \<open>Concrete worlds and objects\<close>

definition token_file :: string where
  "token_file = ''/home/u/.spotify-mcp-tokens.json''"

text \<open>Nothing on disk, no fault, a clock that stands at \<open>now\<close>, an unreachable endpoint.\<close>

definition quiet_world :: "int \<Rightarrow> world" where
  "quiet_world now =
     \<lparr>fs = (\<lambda>p. None), read_fails = (\<lambda>p. False), write_fails = (\<lambda>p. False),
      unlink_fails = (\<lambda>p. False), clock = (\<lambda>k. now), ticks = 0,
      entropy = (\<lambda>k. 0), drawn = 0, net = (\<lambda>k rq. NetworkError), sent = [],
      listener = [], console = [], environ = (\<lambda>v. None)\<rparr>"

definition example_record :: "string \<Rightarrow> int \<Rightarrow> TokenData" where
  "example_record rt e =
     \<lparr>access_token = ''A'', refresh_token = Some rt, expires_at = e,
      token_type = ''Bearer'', scope = ''user-library-read''\<rparr>"

text \<open>An object holding nothing, or the given token record.\<close>

definition example_auth :: "TokenData option \<Rightarrow> SpotifyAuth" where
  "example_auth td =
     \<lparr>clientId = ''id'', clientSecret = ''secret'', tokenPath = token_file,
      tokenData = map_option Record td\<rparr>"

definition example_response :: "string option \<Rightarrow> TokenResponse" where
  "example_response rt =
     \<lparr>rsp_access_token = ''B'', rsp_refresh_token = rt, rsp_expires_in = 3600,
      rsp_token_type = ''Bearer'', rsp_scope = ''user-library-read''\<rparr>"

text \<open>An endpoint that answers every request with the given response.\<close>

definition answering_world :: "int \<Rightarrow> TokenResponse \<Rightarrow> world" where
  "answering_world now data = (quiet_world now)\<lparr>net := (\<lambda>k rq. Reply data)\<rparr>"

text \<open>A token file holding the given record.\<close>

definition stored_world :: "int \<Rightarrow> TokenData \<Rightarrow> world" where
  "stored_world now td =
     (quiet_world now)\<lparr>fs := (\<lambda>p. None)(token_file := Some (Json (Some (Record td))))\<rparr>"

text \<open>
  A token file holding text that parses to the given value; the value of the text
  \<open>{}\<close>, an object without members; and the value of \<open>{"expires_at": 3601000}\<close>.
\<close>

definition parsed_world :: "int \<Rightarrow> held option \<Rightarrow> world" where
  "parsed_world now v = (quiet_world now)\<lparr>fs := (\<lambda>p. None)(token_file := Some (Json v))\<rparr>"

definition empty_object :: held where
  "empty_object =
     JObject \<lparr>member_access_token = None, member_refresh_token = None, member_expires_at = None\<rparr>"

definition expiry_only_object :: held where
  "expiry_only_object =
     JObject \<lparr>member_access_token = None, member_refresh_token = None,
              member_expires_at = Some 3601000\<rparr>"

text \<open>A callback request with the given query.\<close>

definition callback :: "(string \<times> string) list \<Rightarrow> request" where
  "callback q = \<lparr>pathname = ''/callback'', searchParams = q\<rparr>"

section \<open>Properties\<close>

subsection \<open>Auxiliary facts\<close>

lemma saveTokens_result:
  "saveTokens w s =
     (if write_fails w (tokenPath s) then console_error (Line ''Failed to save tokens:'') w
      else w\<lparr>fs := (fs w)(tokenPath s := Some (Json (tokenData s)))\<rparr>, s, Inr ())"
  by (simp add: saveTokens_def writeFileSync_def)

lemma refreshAccessToken_failed:
  assumes "tokenData s = Some (Record td)" and "refresh_token td = Some rt" and "rt \<noteq> []"
    and "\<forall>data. net w (length (sent w)) (refresh_request s rt) \<noteq> Reply data"
  shows "refreshAccessToken w s =
           (console_error (Line ''Failed to refresh token:'')
              (w\<lparr>sent := sent w @ [refresh_request s rt]\<rparr>),
            s, Inl RefreshFailed)"
  using assms
  by (cases "net w (length (sent w)) (refresh_request s rt)")
     (simp_all add: refreshAccessToken_def axios_post_def)

lemma refreshAccessToken_replied:
  assumes "tokenData s = Some (Record td)" and "refresh_token td = Some rt" and "rt \<noteq> []"
    and "net w (length (sent w)) (refresh_request s rt) = Reply data"
  shows "refreshAccessToken w s =
           (case saveTokens (w\<lparr>sent := sent w @ [refresh_request s rt], ticks := Suc (ticks w)\<rparr>)
                   (s\<lparr>tokenData := Some (Record
                       \<lparr>access_token = rsp_access_token data,
                        refresh_token = or_else (rsp_refresh_token data) (Some rt),
                        expires_at = clock w (ticks w) + rsp_expires_in data * 1000,
                        token_type = rsp_token_type data,
                        scope = rsp_scope data\<rparr>)\<rparr>) of
              (w3, s3, r) \<Rightarrow> (console_error (Line ''Token refreshed successfully'') w3, s3, Inr ()))"
  using assms
  by (simp add: refreshAccessToken_def axios_post_def Date_now_def saveTokens_result)

lemma refreshAccessToken_sent_le:
  "length (sent (fst (refreshAccessToken w s))) \<le> Suc (length (sent w))"
  by (auto simp: refreshAccessToken_def axios_post_def Date_now_def saveTokens_result
        console_error_def split: option.splits reply.splits)

lemma bound_after_append:
  "bound_after b (xs @ ys) = bound_after (bound_after b xs) ys"
  by (induction b xs rule: bound_after.induct) simp_all

lemma handler_shape:
  "handler S r = [] \<or>
   (\<exists>n p e. handler S r = [WriteHead n, End p, ServerClose, e] \<and>
      (e = Reject CsrfMismatch \<or> e = Reject NoAuthorizationCode
       \<or> (\<exists>x. e = Reject (AuthorizationDenied x)) \<or> (\<exists>c. e = Resolve c)))"
  by (auto simp: handler_def split: option.splits list.splits)

lemma handler_ignores: "pathname r \<noteq> ''/callback'' \<Longrightarrow> handler S r = []"
  by (simp add: handler_def)

lemma serve_shape:
  "serve S reqs = [] \<or>
   (\<exists>n p e. serve S reqs = [WriteHead n, End p, ServerClose, e] \<and>
      (e = Reject CsrfMismatch \<or> e = Reject NoAuthorizationCode
       \<or> (\<exists>x. e = Reject (AuthorizationDenied x)) \<or> (\<exists>c. e = Resolve c)))"
proof (induction reqs)
  case Nil
  show ?case by simp
next
  case (Cons r rs)
  from handler_shape [of S r] show ?case
  proof
    assume "handler S r = []"
    with Cons.IH show ?thesis by simp
  next
    assume "\<exists>n p e. handler S r = [WriteHead n, End p, ServerClose, e] \<and>
      (e = Reject CsrfMismatch \<or> e = Reject NoAuthorizationCode
       \<or> (\<exists>x. e = Reject (AuthorizationDenied x)) \<or> (\<exists>c. e = Resolve c))"
    then show ?thesis by auto
  qed
qed

lemma serve_skip:
  "\<forall>r \<in> set pre. pathname r \<noteq> ''/callback'' \<Longrightarrow> serve S (pre @ rs) = serve S rs"
  by (induction pre) (simp_all add: handler_ignores)

subsection \<open>Access token\<close>

text \<open>
  C1. \<open>getAccessToken\<close> throws \<open>NotAuthenticated\<close> when the object holds no record.
  When it holds one with \<open>expires_at > now + 60000\<close> it returns the held
  \<open>access_token\<close> and sends nothing to the token endpoint. When it holds one with
  \<open>expires_at \<le> now + 60000\<close> it calls \<open>refreshAccessToken\<close> once and passes its
  error on, or returns the token of the record held afterwards: at most one request is
  sent; if the record has a refresh token and the endpoint answers, the result is the
  answer's \<open>access_token\<close> after exactly that one request; and whenever a token is
  returned, it is the answer's and exactly one request was sent.
\<close>

theorem getAccessToken_cases:
  "(tokenData s = None \<longrightarrow> getAccessToken w s = (w, s, Inl NotAuthenticated))
   \<and> (\<forall>td. tokenData s = Some (Record td) \<and> expires_at td > clock w (ticks w) + 60000 \<longrightarrow>
          getAccessToken w s = (w\<lparr>ticks := Suc (ticks w)\<rparr>, s, Inr (Some (access_token td)))
          \<and> sent (fst (getAccessToken w s)) = sent w)
   \<and> (\<forall>td. tokenData s = Some (Record td) \<and> expires_at td \<le> clock w (ticks w) + 60000 \<longrightarrow>
          getAccessToken w s =
            (case refreshAccessToken (w\<lparr>ticks := Suc (ticks w)\<rparr>) s of
               (w2, s2, Inl e) \<Rightarrow> (w2, s2, Inl e)
             | (w2, s2, Inr u) \<Rightarrow>
                 (case tokenData s2 of
                    None \<Rightarrow> (w2, s2, Inl TypeError)
                  | Some v2 \<Rightarrow> (w2, s2, Inr (access_token_of v2))))
          \<and> length (sent (fst (getAccessToken w s))) \<le> Suc (length (sent w))
          \<and> (\<forall>rt data. refresh_token td = Some rt \<and> rt \<noteq> []
                \<and> net w (length (sent w)) (refresh_request s rt) = Reply data \<longrightarrow>
                snd (snd (getAccessToken w s)) = Inr (Some (rsp_access_token data))
                \<and> sent (fst (getAccessToken w s)) = sent w @ [refresh_request s rt])
          \<and> (\<forall>tok. snd (snd (getAccessToken w s)) = Inr tok \<longrightarrow>
                (\<exists>rt data. refresh_token td = Some rt
                   \<and> net w (length (sent w)) (refresh_request s rt) = Reply data
                   \<and> tok = Some (rsp_access_token data)
                   \<and> sent (fst (getAccessToken w s)) = sent w @ [refresh_request s rt])))"
proof (intro conjI allI impI)
  assume "tokenData s = None"
  then show "getAccessToken w s = (w, s, Inl NotAuthenticated)"
    by (simp add: getAccessToken_def)
next
  fix td assume "tokenData s = Some (Record td) \<and> expires_at td > clock w (ticks w) + 60000"
  then show "getAccessToken w s = (w\<lparr>ticks := Suc (ticks w)\<rparr>, s, Inr (Some (access_token td)))"
    and "sent (fst (getAccessToken w s)) = sent w"
    by (simp_all add: getAccessToken_def Date_now_def)
next
  fix td assume a: "tokenData s = Some (Record td) \<and> expires_at td \<le> clock w (ticks w) + 60000"
  let ?w1 = "w\<lparr>ticks := Suc (ticks w)\<rparr>"
  show g: "getAccessToken w s =
            (case refreshAccessToken ?w1 s of
               (w2, s2, Inl e) \<Rightarrow> (w2, s2, Inl e)
             | (w2, s2, Inr u) \<Rightarrow>
                 (case tokenData s2 of
                    None \<Rightarrow> (w2, s2, Inl TypeError)
                  | Some v2 \<Rightarrow> (w2, s2, Inr (access_token_of v2))))"
    using a by (simp add: getAccessToken_def Date_now_def)
  have f: "fst (getAccessToken w s) = fst (refreshAccessToken ?w1 s)"
    unfolding g by (simp split: prod.splits sum.splits option.splits)
  show "length (sent (fst (getAccessToken w s))) \<le> Suc (length (sent w))"
    unfolding f using refreshAccessToken_sent_le [of ?w1 s] by simp
  {
    fix rt data
    assume b: "refresh_token td = Some rt \<and> rt \<noteq> []
                \<and> net w (length (sent w)) (refresh_request s rt) = Reply data"
    then have n: "net ?w1 (length (sent ?w1)) (refresh_request s rt) = Reply data"
      by simp
    from a b have t: "tokenData s = Some (Record td)" "refresh_token td = Some rt" "rt \<noteq> []"
      by simp_all
    show "snd (snd (getAccessToken w s)) = Inr (Some (rsp_access_token data))"
      and "sent (fst (getAccessToken w s)) = sent w @ [refresh_request s rt]"
      unfolding g refreshAccessToken_replied [OF t n] saveTokens_result
      by (simp_all add: console_error_def)
  }
  note ok = this
  {
    fix tok assume r: "snd (snd (getAccessToken w s)) = Inr tok"
    have "\<exists>rt. refresh_token td = Some rt \<and> rt \<noteq> []"
    proof (rule ccontr)
      assume "\<not> ?thesis"
      then have "refreshAccessToken ?w1 s = (?w1, s, Inl NoRefreshToken)"
        using a by (auto simp: refreshAccessToken_def split: option.splits)
      with r show False unfolding g by simp
    qed
    then obtain rt where rt: "refresh_token td = Some rt" "rt \<noteq> []" by blast
    have "\<exists>data. net w (length (sent w)) (refresh_request s rt) = Reply data"
    proof (rule ccontr)
      assume "\<not> ?thesis"
      then have "\<forall>data. net ?w1 (length (sent ?w1)) (refresh_request s rt) \<noteq> Reply data"
        by simp
      from refreshAccessToken_failed [OF _ rt this] a r
      show False unfolding g by simp
    qed
    then obtain data where d: "net w (length (sent w)) (refresh_request s rt) = Reply data"
      by blast
    from ok [of rt data] rt d r
    show "\<exists>rt data. refresh_token td = Some rt
                   \<and> net w (length (sent w)) (refresh_request s rt) = Reply data
                   \<and> tok = Some (rsp_access_token data)
                   \<and> sent (fst (getAccessToken w s)) = sent w @ [refresh_request s rt]"
      by auto
  }
qed

text \<open>
  The specification's scenario: the record \<open>A\<close>/\<open>R\<close> expiring an hour after
  \<open>now = 1000\<close> is served from memory; 50 ms before its expiry one refresh request is
  sent and the answer's token \<open>B\<close> is returned.
\<close>

theorem getAccessToken_cases_witness:
  "getAccessToken (quiet_world 1000) (example_auth None)
     = (quiet_world 1000, example_auth None, Inl NotAuthenticated)
   \<and> snd (snd (getAccessToken (answering_world 1000 (example_response None))
                 (example_auth (Some (example_record ''R'' (1000 + 3600000)))))) = Inr (Some ''A'')
   \<and> sent (fst (getAccessToken (answering_world 1000 (example_response None))
                 (example_auth (Some (example_record ''R'' (1000 + 3600000)))))) = []
   \<and> snd (snd (getAccessToken (answering_world (1000 + 3599950) (example_response None))
                 (example_auth (Some (example_record ''R'' (1000 + 3600000)))))) = Inr (Some ''B'')
   \<and> sent (fst (getAccessToken (answering_world (1000 + 3599950) (example_response None))
                 (example_auth (Some (example_record ''R'' (1000 + 3600000))))))
       = [refresh_request (example_auth (Some (example_record ''R'' (1000 + 3600000)))) ''R'']"
proof -
  let ?s = "example_auth (Some (example_record ''R'' (1000 + 3600000)))"
  let ?fresh = "answering_world 1000 (example_response None)"
  let ?stale = "answering_world (1000 + 3599950) (example_response None)"
  have absent: "getAccessToken (quiet_world 1000) (example_auth None)
       = (quiet_world 1000, example_auth None, Inl NotAuthenticated)"
    using getAccessToken_cases [of "example_auth None" "quiet_world 1000", THEN conjunct1]
    by (simp add: example_auth_def)
  have fresh: "tokenData ?s = Some (Record (example_record ''R'' (1000 + 3600000)))
        \<and> expires_at (example_record ''R'' (1000 + 3600000)) > clock ?fresh (ticks ?fresh) + 60000"
    by (simp add: example_auth_def example_record_def answering_world_def quiet_world_def)
  note cached = getAccessToken_cases [of ?s ?fresh, THEN conjunct2, THEN conjunct1, rule_format, OF fresh]
  have stale: "tokenData ?s = Some (Record (example_record ''R'' (1000 + 3600000)))
        \<and> expires_at (example_record ''R'' (1000 + 3600000)) \<le> clock ?stale (ticks ?stale) + 60000"
    by (simp add: example_auth_def example_record_def answering_world_def quiet_world_def)
  have answer: "refresh_token (example_record ''R'' (1000 + 3600000)) = Some ''R'' \<and> ''R'' \<noteq> []
        \<and> net ?stale (length (sent ?stale)) (refresh_request ?s ''R'') = Reply (example_response None)"
    by (simp add: example_record_def answering_world_def quiet_world_def)
  note refreshed = getAccessToken_cases [of ?s ?stale, THEN conjunct2, THEN conjunct2, rule_format,
      OF stale, THEN conjunct2, THEN conjunct2, THEN conjunct1, rule_format, OF answer]
  from absent cached refreshed show ?thesis
    by (simp add: example_record_def example_response_def answering_world_def quiet_world_def)
qed

subsection \<open>Validity\<close>

text \<open>
  C2. For every object that holds no record or a token record, and every reading
  \<open>now\<close> of the clock, \<open>hasValidTokens\<close> returns false when no record is held or
  the held record has \<open>expires_at \<le> now + 60000\<close>, and true otherwise. Whatever value
  is held, the result is true iff the value is truthy and its \<open>expires_at\<close> is a
  number above \<open>now + 60000\<close>.
\<close>

theorem hasValidTokens_buffer:
  "(tokenData s = None \<or> (\<exists>td. tokenData s = Some (Record td)) \<longrightarrow>
      (snd (hasValidTokens w s) \<longleftrightarrow>
         \<not> (tokenData s = None
            \<or> (\<exists>td. tokenData s = Some (Record td)
                  \<and> expires_at td \<le> clock w (ticks w) + 60000))))
   \<and> (snd (hasValidTokens w s) \<longleftrightarrow>
        (\<exists>v x. tokenData s = Some v \<and> truthy_value v \<and> expires_at_of v = Some x
           \<and> \<not> x \<le> clock w (ticks w) + 60000))"
proof (cases "tokenData s")
  case None
  then show ?thesis by (simp add: hasValidTokens_def)
next
  case (Some v)
  show ?thesis
  proof (cases "expires_at_of v")
    case None
    with Some show ?thesis
      by (cases v) (auto simp: hasValidTokens_def Date_now_def)
  next
    case (Some x)
    with \<open>tokenData s = Some v\<close> show ?thesis
      by (cases v) (auto simp: hasValidTokens_def Date_now_def)
  qed
qed

text \<open>
  With \<open>now = 1000000\<close>: no record, \<open>expires_at = 1059999\<close> and the boundary
  \<open>1060000\<close> are invalid, \<open>1060001\<close> is valid.
\<close>

theorem hasValidTokens_buffer_witness:
  "\<not> snd (hasValidTokens (quiet_world 1000000) (example_auth None))
   \<and> \<not> snd (hasValidTokens (quiet_world 1000000) (example_auth (Some (example_record ''R'' 1059999))))
   \<and> \<not> snd (hasValidTokens (quiet_world 1000000) (example_auth (Some (example_record ''R'' 1060000))))
   \<and> snd (hasValidTokens (quiet_world 1000000) (example_auth (Some (example_record ''R'' 1060001))))"
  using hasValidTokens_buffer [of "example_auth None" "quiet_world 1000000"]
    hasValidTokens_buffer [of "example_auth (Some (example_record ''R'' 1059999))" "quiet_world 1000000"]
    hasValidTokens_buffer [of "example_auth (Some (example_record ''R'' 1060000))" "quiet_world 1000000"]
    hasValidTokens_buffer [of "example_auth (Some (example_record ''R'' 1060001))" "quiet_world 1000000"]
  by (simp add: quiet_world_def example_auth_def example_record_def)

subsection \<open>Refresh\<close>

text \<open>
  C3, as the code has it. For a held record with refresh token \<open>R1\<close> and a 2xx answer
  of the token endpoint to the refresh request: the refresh succeeds, and the record held
  afterwards has \<open>refresh_token = R1\<close> if the answer has no \<open>refresh_token\<close> or an
  empty one, and \<open>refresh_token = R2\<close> if the answer carries a non-empty \<open>R2\<close>;
  \<open>access_token\<close>, \<open>token_type\<close> and \<open>scope\<close> are the answer's, and
  \<open>expires_at\<close> is the clock's reading after the answer plus \<open>expires_in * 1000\<close>.
  Unless the write of the token file fails, the file then holds this record.
\<close>

theorem refresh_builds_record:
  assumes "tokenData s = Some (Record td)" and "refresh_token td = Some R1" and "R1 \<noteq> []"
    and "net w (length (sent w)) (refresh_request s R1) = Reply data"
  shows "snd (snd (refreshAccessToken w s)) = Inr ()
         \<and> tokenData (fst (snd (refreshAccessToken w s))) =
             Some (Record
                  \<lparr>access_token = rsp_access_token data,
                   refresh_token =
                     (case rsp_refresh_token data of
                        None \<Rightarrow> Some R1
                      | Some R2 \<Rightarrow> if R2 = [] then Some R1 else Some R2),
                   expires_at = clock w (ticks w) + rsp_expires_in data * 1000,
                   token_type = rsp_token_type data,
                   scope = rsp_scope data\<rparr>)
         \<and> (\<not> write_fails w (tokenPath s) \<longrightarrow>
              fs (fst (refreshAccessToken w s)) (tokenPath s)
                = Some (Json (tokenData (fst (snd (refreshAccessToken w s))))))"
proof -
  have r: "or_else (rsp_refresh_token data) (Some R1) =
        (case rsp_refresh_token data of
           None \<Rightarrow> Some R1
         | Some R2 \<Rightarrow> if R2 = [] then Some R1 else Some R2)"
    by (simp add: or_else_def split: option.split)
  show ?thesis
    unfolding refreshAccessToken_replied [OF assms] saveTokens_result r
    by (simp add: console_error_def)
qed

text \<open>
  Held \<open>R1\<close>, clock at 7000: an answer without refresh token keeps \<open>R1\<close>; an answer
  with \<open>R2\<close> stores \<open>R2\<close>, expiry \<open>7000 + 3600 * 1000\<close>, and the file holds the
  new record.
\<close>

theorem refresh_builds_record_witness:
  "map_option refresh_token_of (tokenData (fst (snd (refreshAccessToken
       (answering_world 7000 (example_response None))
       (example_auth (Some (example_record ''R1'' 0))))))) = Some (Some ''R1'')
   \<and> map_option refresh_token_of (tokenData (fst (snd (refreshAccessToken
       (answering_world 7000 (example_response (Some ''R2'')))
       (example_auth (Some (example_record ''R1'' 0))))))) = Some (Some ''R2'')
   \<and> map_option expires_at_of (tokenData (fst (snd (refreshAccessToken
       (answering_world 7000 (example_response (Some ''R2'')))
       (example_auth (Some (example_record ''R1'' 0))))))) = Some (Some 3607000)
   \<and> fs (fst (refreshAccessToken
       (answering_world 7000 (example_response (Some ''R2'')))
       (example_auth (Some (example_record ''R1'' 0))))) token_file
       = Some (Json (Some (Record \<lparr>access_token = ''B'', refresh_token = Some ''R2'',
                            expires_at = 3607000, token_type = ''Bearer'',
                            scope = ''user-library-read''\<rparr>)))"
  using refresh_builds_record
    [of "example_auth (Some (example_record ''R1'' 0))" "example_record ''R1'' 0" "''R1''"
        "answering_world 7000 (example_response None)" "example_response None"]
    refresh_builds_record
    [of "example_auth (Some (example_record ''R1'' 0))" "example_record ''R1'' 0" "''R1''"
        "answering_world 7000 (example_response (Some ''R2''))" "example_response (Some ''R2'')"]
  by (simp add: example_auth_def example_record_def answering_world_def quiet_world_def
        example_response_def)

text \<open>
  C3 as stated fails where the answer carries the empty string as its refresh token:
  \<open>data.refresh_token || this.tokenData.refresh_token\<close> takes the held \<open>R1\<close>, so the
  record after the successful refresh does not have the carried value.
\<close>

theorem refresh_empty_token_counterexample:
  "tokenData (example_auth (Some (example_record ''R1'' 0))) = Some (Record (example_record ''R1'' 0))
   \<and> refresh_token (example_record ''R1'' 0) = Some ''R1''
   \<and> net (answering_world 7000 (example_response (Some ''''))) 0
        (refresh_request (example_auth (Some (example_record ''R1'' 0))) ''R1'')
       = Reply (example_response (Some ''''))
   \<and> rsp_refresh_token (example_response (Some '''')) = Some ''''
   \<and> snd (snd (refreshAccessToken (answering_world 7000 (example_response (Some '''')))
                 (example_auth (Some (example_record ''R1'' 0))))) = Inr ()
   \<and> map_option refresh_token_of (tokenData (fst (snd (refreshAccessToken
       (answering_world 7000 (example_response (Some '''')))
       (example_auth (Some (example_record ''R1'' 0))))))) = Some (Some ''R1'')
   \<and> Some ''R1'' \<noteq> Some ''''"
  by (simp add: refreshAccessToken_def axios_post_def Date_now_def saveTokens_def
        writeFileSync_def console_error_def or_else_def refresh_request_def
        example_auth_def example_record_def answering_world_def quiet_world_def
        example_response_def)

text \<open>
  C5. For every held record with a refresh token, when the token endpoint answers the
  refresh request with an HTTP error or cannot be reached, \<open>refreshAccessToken\<close> throws
  \<open>RefreshFailed\<close>, the object is as before (the record is neither replaced nor
  dropped), every file is as before, and exactly one request was sent (no retry).
\<close>

theorem refresh_failure_keeps_record:
  assumes "tokenData s = Some (Record td)" and "refresh_token td = Some rt" and "rt \<noteq> []"
    and "net w (length (sent w)) (refresh_request s rt) = HttpError n
         \<or> net w (length (sent w)) (refresh_request s rt) = NetworkError"
  shows "snd (snd (refreshAccessToken w s)) = Inl RefreshFailed
         \<and> fst (snd (refreshAccessToken w s)) = s
         \<and> fs (fst (refreshAccessToken w s)) = fs w
         \<and> sent (fst (refreshAccessToken w s)) = sent w @ [refresh_request s rt]"
proof -
  from assms(4) have "\<forall>data. net w (length (sent w)) (refresh_request s rt) \<noteq> Reply data"
    by auto
  from refreshAccessToken_failed [OF assms(1-3) this]
  show ?thesis by (simp add: console_error_def)
qed

text \<open>An unreachable endpoint, the stale record \<open>R1\<close> in memory and in the file.\<close>

theorem refresh_failure_keeps_record_witness:
  "snd (snd (refreshAccessToken (stored_world 5000 (example_record ''R1'' 0))
               (example_auth (Some (example_record ''R1'' 0))))) = Inl RefreshFailed
   \<and> tokenData (fst (snd (refreshAccessToken (stored_world 5000 (example_record ''R1'' 0))
               (example_auth (Some (example_record ''R1'' 0)))))) = Some (Record (example_record ''R1'' 0))
   \<and> fs (fst (refreshAccessToken (stored_world 5000 (example_record ''R1'' 0))
               (example_auth (Some (example_record ''R1'' 0))))) token_file
       = Some (Json (Some (Record (example_record ''R1'' 0))))
   \<and> length (sent (fst (refreshAccessToken (stored_world 5000 (example_record ''R1'' 0))
               (example_auth (Some (example_record ''R1'' 0)))))) = 1"
  using refresh_failure_keeps_record
    [of "example_auth (Some (example_record ''R1'' 0))" "example_record ''R1'' 0" "''R1''"
        "stored_world 5000 (example_record ''R1'' 0)" 0]
  by (simp add: example_auth_def example_record_def stored_world_def quiet_world_def)

text \<open>
  C10. For an object that holds no record, \<open>refreshAccessToken\<close> throws the
  "No refresh token available" error, the one it throws for a record without
  \<open>refresh_token\<close>, and not \<open>NotAuthenticated\<close>; the world is as before, so no request
  was sent.
\<close>

theorem refreshAccessToken_no_record:
  "tokenData s = None \<Longrightarrow>
     refreshAccessToken w s = (w, s, Inl NoRefreshToken)
     \<and> refreshAccessToken w (s\<lparr>tokenData := Some (Record (td\<lparr>refresh_token := None\<rparr>))\<rparr>)
         = (w, s\<lparr>tokenData := Some (Record (td\<lparr>refresh_token := None\<rparr>))\<rparr>, Inl NoRefreshToken)
     \<and> NoRefreshToken \<noteq> NotAuthenticated
     \<and> message NoRefreshToken = ''No refresh token available. Run the auth flow first.''
     \<and> sent (fst (refreshAccessToken w s)) = sent w"
  by (simp add: refreshAccessToken_def)

theorem refreshAccessToken_no_record_witness:
  "tokenData (example_auth None) = None
   \<and> refreshAccessToken (answering_world 0 (example_response None)) (example_auth None)
       = (answering_world 0 (example_response None), example_auth None, Inl NoRefreshToken)
   \<and> sent (fst (refreshAccessToken (answering_world 0 (example_response None)) (example_auth None))) = []"
  using refreshAccessToken_no_record [of "example_auth None" "answering_world 0 (example_response None)"]
  by (simp add: example_auth_def answering_world_def quiet_world_def)

subsection \<open>Authorization flow\<close>

text \<open>
  C4. Let \<open>S\<close> be the state \<open>authenticate\<close> generates. If the first request for
  \<open>/callback\<close> that reaches the listener has no (non-empty) \<open>error\<close> parameter
  and a \<open>state\<close> parameter other than \<open>S\<close> (or none), then \<open>authenticate\<close>
  throws \<open>CsrfMismatch\<close>; the code exchange is not reached: nothing was sent to the
  token endpoint, the object and with it the held record are as before, and so is every
  file.
\<close>

theorem state_mismatch_stops_flow:
  assumes "\<forall>r \<in> set pre. pathname r \<noteq> ''/callback''"
    and "pathname cb = ''/callback''"
    and "\<not> truthy (map_of (searchParams cb) ''error'')"
    and "map_of (searchParams cb) ''state'' \<noteq> Some (snd (generateState w))"
  shows "\<exists>w'. authenticate w s (pre @ cb # rest) = Some (w', s, Inl CsrfMismatch)
           \<and> sent w' = sent w \<and> fs w' = fs w"
proof -
  obtain w1 S where g: "generateState w = (w1, S)" by (cases "generateState w")
  then have w1: "sent w1 = sent w" "fs w1 = fs w"
    by (auto simp: generateState_def randomBytes_def)
  from assms(3) have err: "map_of (searchParams cb) ''error'' = None
      \<or> map_of (searchParams cb) ''error'' = Some []"
    by (cases "map_of (searchParams cb) ''error''") auto
  from assms(2,4) g err
  have h: "handler S cb = [WriteHead 400, End StateMismatchPage, ServerClose, Reject CsrfMismatch]"
    by (auto simp: handler_def)
  have sv: "serve S (pre @ cb # rest)
      = [WriteHead 400, End StateMismatchPage, ServerClose, Reject CsrfMismatch]"
    by (simp add: serve_skip [OF assms(1)] h)
  show ?thesis
    by (simp add: authenticate_def g waitForCallback_def callback_trace_def sv
          console_error_def announce_def w1)
qed

text \<open>
  The random source gives sixteen zero bytes, so \<open>S\<close> is thirty-two zeros. A request
  for another path, then a callback with the state \<open>forged\<close>, then the genuine
  callback, which is no longer served.
\<close>

theorem state_mismatch_stops_flow_witness:
  "snd (generateState (stored_world 0 (example_record ''R'' 0))) = ''00000000000000000000000000000000''
   \<and> (\<exists>w'. authenticate (stored_world 0 (example_record ''R'' 0))
              (example_auth (Some (example_record ''R'' 0)))
              ([\<lparr>pathname = ''/favicon.ico'', searchParams = []\<rparr>]
               @ callback [(''code'', ''c''), (''state'', ''forged'')]
               # [callback [(''code'', ''c''), (''state'', ''00000000000000000000000000000000'')]])
            = Some (w', example_auth (Some (example_record ''R'' 0)), Inl CsrfMismatch)
          \<and> sent w' = [] \<and> fs w' token_file = Some (Json (Some (Record (example_record ''R'' 0)))))"
proof -
  have S: "snd (generateState (stored_world 0 (example_record ''R'' 0))) = ''00000000000000000000000000000000''"
    by (simp add: generateState_def randomBytes_def toString_hex_def hex_digit_def
          stored_world_def quiet_world_def upt_rec)
  have a: "\<forall>r \<in> set [\<lparr>pathname = ''/favicon.ico'', searchParams = []\<rparr>]. pathname r \<noteq> ''/callback''"
    by simp
  have b: "pathname (callback [(''code'', ''c''), (''state'', ''forged'')]) = ''/callback''"
    by (simp add: callback_def)
  have c: "\<not> truthy (map_of (searchParams (callback [(''code'', ''c''), (''state'', ''forged'')])) ''error'')"
    by (simp add: callback_def)
  have d: "map_of (searchParams (callback [(''code'', ''c''), (''state'', ''forged'')])) ''state''
      \<noteq> Some (snd (generateState (stored_world 0 (example_record ''R'' 0))))"
    unfolding S by (simp add: callback_def)
  from state_mismatch_stops_flow [OF a b c d, of "example_auth (Some (example_record ''R'' 0))"
      "[callback [(''code'', ''c''), (''state'', ''00000000000000000000000000000000'')]]"] S
  show ?thesis
    by (auto simp: stored_world_def quiet_world_def)
qed

text \<open>
  C6. For every expected state and every sequence of requests reaching the listener, the
  run of \<open>waitForCallback\<close> binds port 8888 on the loopback address, sets the five-minute
  timer, and reaches a call of \<open>resolve\<close> or \<open>reject\<close>; the first such call is
  the success, the error parameter, the state mismatch, the missing code or the timeout,
  and the call just before it is \<open>server.close()\<close>. So the promise always settles, the
  port is not bound when it does, and it is not bound at the end of the run: nothing
  binds it again.
\<close>

theorem listener_closed_before_outcome:
  "\<exists>mid e post.
      callback_trace S reqs
        = [Listen 8888 ''127.0.0.1'', SetTimeout 300000] @ mid @ [ServerClose, e] @ post
      \<and> settled mid = None
      \<and> settled (callback_trace S reqs) = settled [e]
      \<and> (e = Reject CallbackTimeout \<or> e = Reject CsrfMismatch \<or> e = Reject NoAuthorizationCode
         \<or> (\<exists>x. e = Reject (AuthorizationDenied x)) \<or> (\<exists>c. e = Resolve c))
      \<and> \<not> bound_after b ([Listen 8888 ''127.0.0.1'', SetTimeout 300000] @ mid @ [ServerClose])
      \<and> \<not> bound_after b (callback_trace S reqs)
      \<and> snd (waitForCallback w S reqs) = settled [e]
      \<and> snd (waitForCallback w S reqs) \<noteq> None
      \<and> listener (fst (waitForCallback w S reqs)) = listener w @ callback_trace S reqs
      \<and> \<not> bound_after b (listener (fst (waitForCallback w S reqs)))"
proof -
  from serve_shape [of S reqs] show ?thesis
  proof
    assume "serve S reqs = []"
    then show ?thesis
      by (intro exI [of _ "[]"] exI [of _ "Reject CallbackTimeout"] exI [of _ "[]"])
         (simp add: callback_trace_def waitForCallback_def console_error_def bound_after_append)
  next
    assume "\<exists>n p e. serve S reqs = [WriteHead n, End p, ServerClose, e] \<and>
      (e = Reject CsrfMismatch \<or> e = Reject NoAuthorizationCode
       \<or> (\<exists>x. e = Reject (AuthorizationDenied x)) \<or> (\<exists>c. e = Resolve c))"
    then obtain n p e where sv: "serve S reqs = [WriteHead n, End p, ServerClose, e]"
      and e: "e = Reject CsrfMismatch \<or> e = Reject NoAuthorizationCode
       \<or> (\<exists>x. e = Reject (AuthorizationDenied x)) \<or> (\<exists>c. e = Resolve c)"
      by blast
    have "callback_trace S reqs
            = [Listen 8888 ''127.0.0.1'', SetTimeout 300000] @ [WriteHead n, End p]
              @ [ServerClose, e] @ [ServerClose, Reject CallbackTimeout]"
      by (simp add: callback_trace_def sv)
    moreover have "settled (callback_trace S reqs) = settled [e]" "settled [e] \<noteq> None"
      using e by (auto simp: callback_trace_def sv)
    moreover have "\<not> bound_after c (callback_trace S reqs)" for c
      using e by (auto simp: callback_trace_def sv)
    ultimately show ?thesis
      using e
      by (intro exI [of _ "[WriteHead n, End p]"] exI [of _ e]
            exI [of _ "[ServerClose, Reject CallbackTimeout]"])
         (simp add: waitForCallback_def console_error_def bound_after_append)
  qed
qed

text \<open>A genuine callback, and no request at all.\<close>

theorem listener_closed_before_outcome_witness:
  "settled (callback_trace ''s1'' [callback [(''code'', ''c''), (''state'', ''s1'')]]) = Some (Inr ''c'')
   \<and> callback_trace ''s1'' [callback [(''code'', ''c''), (''state'', ''s1'')]]
       = [Listen 8888 ''127.0.0.1'', SetTimeout 300000, WriteHead 200, End SuccessPage]
         @ [ServerClose, Resolve ''c''] @ [ServerClose, Reject CallbackTimeout]
   \<and> \<not> bound_after True (callback_trace ''s1'' [callback [(''code'', ''c''), (''state'', ''s1'')]])
   \<and> settled (callback_trace ''s1'' []) = Some (Inl CallbackTimeout)
   \<and> \<not> bound_after True (callback_trace ''s1'' [])"
  using listener_closed_before_outcome
      [of "''s1''" "[callback [(''code'', ''c''), (''state'', ''s1'')]]" True "quiet_world 0"]
    listener_closed_before_outcome [of "''s1''" "[]" True "quiet_world 0"]
  by (simp add: callback_trace_def callback_def handler_def)

subsection \<open>Token store\<close>

text \<open>
  C7, as the code has it. \<open>hasValidTokens\<close> is true iff the value the object holds in
  memory is truthy and has an \<open>expires_at\<close> above \<open>now + 60000\<close>; for an object
  that holds no record or a token record: iff the record exists and has
  \<open>expires_at > now + 60000\<close>. The call reads the clock (only past the guard on the
  held value) and does nothing else: no file is read or changed, nothing is sent, nothing
  is logged; it does not load the token store. The held value is the one a load of the
  store yields at the moment the constructor runs.
\<close>

theorem hasValidTokens_reads_memory:
  "hasValidTokens w s =
     (if (\<exists>v. tokenData s = Some v \<and> truthy_value v) then w\<lparr>ticks := Suc (ticks w)\<rparr> else w,
      \<exists>v x. tokenData s = Some v \<and> truthy_value v \<and> expires_at_of v = Some x
         \<and> x > clock w (ticks w) + 60000)
   \<and> (tokenData s = None \<or> (\<exists>td. tokenData s = Some (Record td)) \<longrightarrow>
        hasValidTokens w s =
          (if tokenData s = None then w else w\<lparr>ticks := Suc (ticks w)\<rparr>,
           \<exists>td. tokenData s = Some (Record td) \<and> expires_at td > clock w (ticks w) + 60000))
   \<and> fs (fst (hasValidTokens w s)) = fs w
   \<and> sent (fst (hasValidTokens w s)) = sent w
   \<and> listener (fst (hasValidTokens w s)) = listener w
   \<and> console (fst (hasValidTokens w s)) = console w
   \<and> tokenData (fst (snd (SpotifyAuth_new w cid secret path)))
       = TokenStore_load w (resolveTokenPath w path)"
proof -
  have load: "tokenData (fst (snd (SpotifyAuth_new w cid secret path)))
       = TokenStore_load w (resolveTokenPath w path)"
    by (simp add: SpotifyAuth_new_def TokenStore_load_def loadTokens_def split: sum.splits)
  show ?thesis
  proof (cases "tokenData s")
    case None
    with load show ?thesis by (simp add: hasValidTokens_def)
  next
    case (Some v)
    show ?thesis
    proof (cases "expires_at_of v")
      case None
      with Some load show ?thesis
        by (cases v) (auto simp: hasValidTokens_def Date_now_def)
    next
      case (Some x)
      with \<open>tokenData s = Some v\<close> load show ?thesis
        by (cases v) (auto simp: hasValidTokens_def Date_now_def)
    qed
  qed
qed

text \<open>
  A fresh record in memory is valid although the file holds an expired one; the
  constructor takes over what the file holds.
\<close>

theorem hasValidTokens_reads_memory_witness:
  "hasValidTokens (stored_world 1000 (example_record ''R'' 0))
       (example_auth (Some (example_record ''R'' 3601000)))
     = ((stored_world 1000 (example_record ''R'' 0))\<lparr>ticks := 1\<rparr>, True)
   \<and> tokenData (fst (snd (SpotifyAuth_new (stored_world 1000 (example_record ''R'' 0))
        ''id'' ''secret'' (Some token_file)))) = Some (Record (example_record ''R'' 0))"
  using hasValidTokens_reads_memory [of "stored_world 1000 (example_record ''R'' 0)"
      "example_auth (Some (example_record ''R'' 3601000))" "''id''" "''secret''" "Some token_file"]
  by (simp add: stored_world_def quiet_world_def example_auth_def example_record_def
        TokenStore_load_def loadTokens_def existsSync_def readFileSync_def JSON_parse_def
        resolveTokenPath_def or_string_def token_file_def)

text \<open>
  C7 as stated fails once the file changes after the constructor has run. The object is
  built while the file holds a record that is valid at \<open>now = 1000\<close>; in the world
  where the file has since been removed (by another process that shares it),
  \<open>hasValidTokens\<close> is still true, while a load of the store at that moment yields no
  record.
\<close>

theorem hasValidTokens_store_counterexample:
  "fst (snd (SpotifyAuth_new (stored_world 1000 (example_record ''R'' 3601000))
               ''id'' ''secret'' (Some token_file)))
     = example_auth (Some (example_record ''R'' 3601000))
   \<and> snd (hasValidTokens (quiet_world 1000) (example_auth (Some (example_record ''R'' 3601000))))
   \<and> TokenStore_load (quiet_world 1000) (tokenPath (example_auth (Some (example_record ''R'' 3601000))))
       = None"
  by (simp add: SpotifyAuth_new_def hasValidTokens_def Date_now_def TokenStore_load_def
        loadTokens_def existsSync_def readFileSync_def JSON_parse_def resolveTokenPath_def
        or_string_def stored_world_def quiet_world_def example_auth_def example_record_def
        token_file_def)

text \<open>
  C8, as the code has it. The constructor, which performs the load, never throws. When
  the token file is missing, cannot be read, or holds text that \<open>JSON.parse\<close> rejects,
  a load of the store yields no record and the constructor leaves the object without
  one; so \<open>hasValidTokens\<close> is false on the new object, in particular on a fresh
  install. Text that \<open>JSON.parse\<close> accepts is not examined further: the value it parses
  to, of whatever shape, is what the load yields and what the object then holds.
\<close>

theorem load_fails_soft:
  "snd (snd (SpotifyAuth_new w cid secret path)) = Inr ()
   \<and> (fs w (resolveTokenPath w path) = None
        \<or> read_fails w (resolveTokenPath w path)
        \<or> fs w (resolveTokenPath w path) = Some Malformed \<longrightarrow>
      TokenStore_load w (resolveTokenPath w path) = None
      \<and> tokenData (fst (snd (SpotifyAuth_new w cid secret path))) = None
      \<and> \<not> snd (hasValidTokens (fst (SpotifyAuth_new w cid secret path))
                 (fst (snd (SpotifyAuth_new w cid secret path)))))
   \<and> (\<forall>v. fs w (resolveTokenPath w path) = Some (Json v)
            \<and> \<not> read_fails w (resolveTokenPath w path) \<longrightarrow>
      TokenStore_load w (resolveTokenPath w path) = v
      \<and> tokenData (fst (snd (SpotifyAuth_new w cid secret path))) = v)"
  by (auto simp: TokenStore_load_def SpotifyAuth_new_def loadTokens_def existsSync_def
        readFileSync_def JSON_parse_def hasValidTokens_def split: option.splits content.splits)

text \<open>
  No file at the default path; an unreadable file; a file that does not parse; a file
  holding a token record.
\<close>

theorem load_fails_soft_witness:
  "tokenData (fst (snd (SpotifyAuth_new (quiet_world 0) ''id'' ''secret'' None))) = None
   \<and> \<not> snd (hasValidTokens (fst (SpotifyAuth_new (quiet_world 0) ''id'' ''secret'' None))
              (fst (snd (SpotifyAuth_new (quiet_world 0) ''id'' ''secret'' None))))
   \<and> tokenData (fst (snd (SpotifyAuth_new
        ((stored_world 0 (example_record ''R'' 9))\<lparr>read_fails := (\<lambda>p. True)\<rparr>)
        ''id'' ''secret'' (Some token_file)))) = None
   \<and> tokenData (fst (snd (SpotifyAuth_new
        ((quiet_world 0)\<lparr>fs := (\<lambda>p. Some Malformed)\<rparr>) ''id'' ''secret'' (Some token_file)))) = None
   \<and> tokenData (fst (snd (SpotifyAuth_new (stored_world 0 (example_record ''R'' 9))
        ''id'' ''secret'' (Some token_file)))) = Some (Record (example_record ''R'' 9))"
  using load_fails_soft [of "quiet_world 0" "''id''" "''secret''" None]
    load_fails_soft [of "(stored_world 0 (example_record ''R'' 9))\<lparr>read_fails := (\<lambda>p. True)\<rparr>"
      "''id''" "''secret''" "Some token_file"]
    load_fails_soft [of "(quiet_world 0)\<lparr>fs := (\<lambda>p. Some Malformed)\<rparr>"
      "''id''" "''secret''" "Some token_file"]
    load_fails_soft [of "stored_world 0 (example_record ''R'' 9)"
      "''id''" "''secret''" "Some token_file"]
  by (simp add: quiet_world_def stored_world_def resolveTokenPath_def or_string_def
        token_file_def)

text \<open>
  C8 as stated fails for content that is malformed as a token record but parses. A file
  holding \<open>{}\<close> is not absent after the load: the constructor leaves the empty object
  in \<open>tokenData\<close>, which is truthy, so \<open>getAccessToken\<close> does not throw
  \<open>NotAuthenticated\<close> but returns the object's \<open>access_token\<close>, \<open>undefined\<close>.
  A file holding only \<open>{"expires_at": 3601000}\<close> is kept as well, and at
  \<open>now = 1000\<close> \<open>hasValidTokens\<close> is true on it.
\<close>

theorem load_wrong_shape_counterexample:
  "fs (parsed_world 1000 (Some empty_object)) token_file = Some (Json (Some empty_object))
   \<and> TokenStore_load (parsed_world 1000 (Some empty_object)) token_file = Some empty_object
   \<and> tokenData (fst (snd (SpotifyAuth_new (parsed_world 1000 (Some empty_object))
        ''id'' ''secret'' (Some token_file)))) = Some empty_object
   \<and> snd (snd (SpotifyAuth_new (parsed_world 1000 (Some empty_object))
        ''id'' ''secret'' (Some token_file))) = Inr ()
   \<and> snd (snd (getAccessToken (parsed_world 1000 (Some empty_object))
        (fst (snd (SpotifyAuth_new (parsed_world 1000 (Some empty_object))
           ''id'' ''secret'' (Some token_file)))))) = Inr None
   \<and> TokenStore_load (parsed_world 1000 (Some expiry_only_object)) token_file
       = Some expiry_only_object
   \<and> snd (hasValidTokens (parsed_world 1000 (Some expiry_only_object))
        (fst (snd (SpotifyAuth_new (parsed_world 1000 (Some expiry_only_object))
           ''id'' ''secret'' (Some token_file)))))"
  by (simp add: TokenStore_load_def SpotifyAuth_new_def loadTokens_def existsSync_def
        readFileSync_def JSON_parse_def resolveTokenPath_def or_string_def
        getAccessToken_def hasValidTokens_def Date_now_def
        parsed_world_def quiet_world_def empty_object_def expiry_only_object_def
        token_file_def)

subsection \<open>Logout\<close>

text \<open>
  C9, as the code has it. From every state, \<open>clearTokens\<close> throws nothing and leaves
  the object without a record, and so does a second call right after it; the second call
  changes no file. When the token file does not exist, or its removal does not fail,
  the file is absent after the first call and the second call changes nothing at all.
  No other file is touched.
\<close>

theorem clearTokens_twice:
  "\<exists>w1 w2.
      clearTokens w s = (w1, s\<lparr>tokenData := None\<rparr>, Inr ())
      \<and> clearTokens w1 (s\<lparr>tokenData := None\<rparr>) = (w2, s\<lparr>tokenData := None\<rparr>, Inr ())
      \<and> fs w2 = fs w1
      \<and> (fs w (tokenPath s) = None \<or> \<not> unlink_fails w (tokenPath s) \<longrightarrow>
           fs w1 (tokenPath s) = None \<and> w2 = w1)
      \<and> (\<forall>p. p \<noteq> tokenPath s \<longrightarrow> fs w1 p = fs w p)"
  by (auto simp: clearTokens_def existsSync_def unlinkSync_def console_error_def)

text \<open>A stored record is removed; on a store that never existed nothing changes.\<close>

theorem clearTokens_twice_witness:
  "fst (clearTokens (stored_world 0 (example_record ''R'' 9)) (example_auth (Some (example_record ''R'' 9))))
     = quiet_world 0
   \<and> clearTokens (quiet_world 0) (example_auth None) = (quiet_world 0, example_auth None, Inr ())"
  using clearTokens_twice [of "stored_world 0 (example_record ''R'' 9)"
      "example_auth (Some (example_record ''R'' 9))"]
    clearTokens_twice [of "quiet_world 0" "example_auth None"]
  by (auto simp: stored_world_def quiet_world_def example_auth_def clearTokens_def
        existsSync_def unlinkSync_def)

text \<open>
  C9 as stated fails where \<open>fs.unlinkSync\<close> throws: the \<open>catch\<close> logs and returns,
  no error reaches the caller, the record in memory is dropped, and the file is still
  there.
\<close>

theorem clearTokens_unlink_counterexample:
  "clearTokens ((stored_world 0 (example_record ''R'' 9))\<lparr>unlink_fails := (\<lambda>p. True)\<rparr>)
       (example_auth (Some (example_record ''R'' 9)))
     = (console_error (Line ''Failed to clear tokens:'')
          ((stored_world 0 (example_record ''R'' 9))\<lparr>unlink_fails := (\<lambda>p. True)\<rparr>),
        example_auth None, Inr ())
   \<and> fs (fst (clearTokens ((stored_world 0 (example_record ''R'' 9))\<lparr>unlink_fails := (\<lambda>p. True)\<rparr>)
       (example_auth (Some (example_record ''R'' 9))))) token_file
     = Some (Json (Some (Record (example_record ''R'' 9))))"
  by (simp add: clearTokens_def existsSync_def unlinkSync_def console_error_def
        stored_world_def quiet_world_def example_auth_def)

end
